theory Spec2Isabelle
  imports Main "HOL-Library.Char_ord" "HOL-Library.List_Lexorder"
begin

section \<open>JSON values and Go strings\<close>

text \<open>
  The client of \<^verbatim>\<open>sdk/trp/trp.go\<close> talks to \<^verbatim>\<open>encoding/json\<close> only through
  \<^verbatim>\<open>json.Marshal\<close> and \<^verbatim>\<open>json.Unmarshal\<close>. A byte slice that holds JSON text is
  represented by the JSON value the text denotes: members of an object are kept in the
  order of the text, with duplicates, and a number keeps its literal.

  A Go \<^verbatim>\<open>string\<close> is a sequence of bytes, here a \<^typ>\<open>string\<close> (a list of 8-bit
  characters). The bytes need not be UTF-8.
\<close>

datatype json =
    JNull
  | JBool bool
  | JNumber string
  | JString string
  | JArray "json list"
  | JObject "(string \<times> json) list"

subsection \<open>UTF-8, as \<^verbatim>\<open>unicode/utf8\<close> accepts it\<close>

definition cont_byte :: "char \<Rightarrow> bool" where
  "cont_byte c = (0x80 \<le> (of_char c :: nat) \<and> (of_char c :: nat) \<le> 0xBF)"

text \<open>
  For a lead byte \<open>x \<ge> 0x80\<close>: the length of the encoding and the range of the second
  byte (the tables \<^verbatim>\<open>first\<close> and \<^verbatim>\<open>acceptRanges\<close>); \<open>None\<close> for a byte that
  cannot start an encoding.
\<close>

definition acceptRange :: "nat \<Rightarrow> (nat \<times> nat \<times> nat) option" where
  "acceptRange x =
     (if 0xC2 \<le> x \<and> x \<le> 0xDF then Some (2, 0x80, 0xBF)
      else if x = 0xE0 then Some (3, 0xA0, 0xBF)
      else if 0xE1 \<le> x \<and> x \<le> 0xEC then Some (3, 0x80, 0xBF)
      else if x = 0xED then Some (3, 0x80, 0x9F)
      else if 0xEE \<le> x \<and> x \<le> 0xEF then Some (3, 0x80, 0xBF)
      else if x = 0xF0 then Some (4, 0x90, 0xBF)
      else if 0xF1 \<le> x \<and> x \<le> 0xF3 then Some (4, 0x80, 0xBF)
      else if x = 0xF4 then Some (4, 0x80, 0x8F)
      else None)"

text \<open>
  \<^verbatim>\<open>utf8.DecodeRune\<close>, reduced to the width it reports: \<open>Some n\<close> when the text starts
  with a well-formed encoding of \<open>n\<close> bytes, \<open>None\<close> where Go returns
  \<^verbatim>\<open>(RuneError, 1)\<close> (or \<^verbatim>\<open>(RuneError, 0)\<close> on the empty text).
\<close>

fun DecodeRune :: "string \<Rightarrow> nat option" where
  "DecodeRune [] = None"
| "DecodeRune (c # cs) =
     (let x = (of_char c :: nat) in
      if x < 0x80 then Some 1
      else
        (case acceptRange x of
           None \<Rightarrow> None
         | Some (n, lo, hi) \<Rightarrow>
             (case cs of
                [] \<Rightarrow> None
              | c1 # cs1 \<Rightarrow>
                  if (of_char c1 :: nat) < lo \<or> hi < (of_char c1 :: nat) then None
                  else if n = 2 then Some 2
                  else
                    (case cs1 of
                       [] \<Rightarrow> None
                     | c2 # cs2 \<Rightarrow>
                         if \<not> cont_byte c2 then None
                         else if n = 3 then Some 3
                         else
                           (case cs2 of
                              [] \<Rightarrow> None
                            | c3 # cs3 \<Rightarrow> if \<not> cont_byte c3 then None else Some 4)))))"

text \<open>The encoding of U+FFFD, the replacement character.\<close>

definition RuneError :: string where
  "RuneError = [CHR 0xEF, CHR 0xBF, CHR 0xBD]"

text \<open>
  What \<^verbatim>\<open>encoding/json\<close> does to the bytes of a string, when it writes one
  (\<^verbatim>\<open>appendString\<close>) and when it reads one (\<^verbatim>\<open>unquote\<close>): well-formed encodings are
  copied, every other byte becomes U+FFFD ("String values encode as JSON strings
  coerced to valid UTF-8, replacing invalid bytes with the Unicode replacement rune").
\<close>

fun coerce_utf8 :: "string \<Rightarrow> string" where
  "coerce_utf8 [] = []"
| "coerce_utf8 (c # cs) =
     (case DecodeRune (c # cs) of
        None \<Rightarrow> RuneError @ coerce_utf8 cs
      | Some n \<Rightarrow> c # take (n - 1) cs @ coerce_utf8 (drop (n - 1) cs))"

text \<open>\<^verbatim>\<open>utf8.ValidString\<close>.\<close>

fun ValidString :: "string \<Rightarrow> bool" where
  "ValidString [] = True"
| "ValidString (c # cs) =
     (case DecodeRune (c # cs) of
        None \<Rightarrow> False
      | Some n \<Rightarrow> ValidString (drop (n - 1) cs))"

subsection \<open>Errors\<close>

text \<open>The custom error type of the package: a message and an optional payload.\<close>

record Error =
  Message :: string
  Data :: "json option"

text \<open>
  Every error value the package can return. \<open>Errorf p e\<close> is
  \<^verbatim>\<open>fmt.Errorf(p + ": %w", e)\<close>; \<open>HTTPError\<close> is
  \<^verbatim>\<open>fmt.Errorf("HTTP error %d: %s", status, body)\<close>; \<open>LibraryError\<close> is an error of a
  library (network, URL parsing, encoding) with its text.
\<close>

datatype error =
    SyntaxError
  | UnmarshalTypeError string
  | LibraryError string
  | NeitherStringNorSubmitWitness
  | Errorf string error
  | HTTPError int string
  | TRPError Error

section \<open>Binary and witness encoding\<close>

record BytesEnvelope =
  Content :: string
  Encoding :: string

record SubmitWitness =
  Type :: string
  Key :: BytesEnvelope
  Signature :: BytesEnvelope

text \<open>\<open>Object\<close> is a pointer in the source: \<open>None\<close> is \<^verbatim>\<open>nil\<close>.\<close>

record WitnessInput =
  Object :: "SubmitWitness option"
  Hex :: string

subsection \<open>\<^verbatim>\<open>json.Marshal\<close>\<close>

definition Marshal_string :: "string \<Rightarrow> json" where
  "Marshal_string s = JString (coerce_utf8 s)"

definition Marshal_BytesEnvelope :: "BytesEnvelope \<Rightarrow> json" where
  "Marshal_BytesEnvelope b =
     JObject [(''content'', Marshal_string (BytesEnvelope.Content b)),
              (''encoding'', Marshal_string (BytesEnvelope.Encoding b))]"

definition Marshal_SubmitWitness :: "SubmitWitness \<Rightarrow> json" where
  "Marshal_SubmitWitness w =
     JObject [(''type'', Marshal_string (Type w)),
              (''key'', Marshal_BytesEnvelope (Key w)),
              (''signature'', Marshal_BytesEnvelope (Signature w))]"

definition MarshalJSON :: "WitnessInput \<Rightarrow> error + json" where
  "MarshalJSON w =
     (case Object w of
        Some obj \<Rightarrow> Inr (Marshal_SubmitWitness obj)
      | None \<Rightarrow> Inr (Marshal_string (Hex w)))"

subsection \<open>\<^verbatim>\<open>json.Unmarshal\<close>\<close>

text \<open>
  The input of \<^verbatim>\<open>json.Unmarshal\<close> is \<open>None\<close> when the bytes are not the text of a
  JSON value (the decoder answers with a syntax error before it stores anything), and
  \<open>Some v\<close> when they are the text of \<open>v\<close>.

  The decoder notes the first value that does not fit its destination, goes on, and
  returns that error at the end. No caller in this package uses a destination after an
  error, so the functions below stop at the first error.
\<close>

definition kind :: "json \<Rightarrow> string" where
  "kind v =
     (case v of
        JNull \<Rightarrow> ''null'' | JBool b \<Rightarrow> ''bool'' | JNumber n \<Rightarrow> ''number''
      | JString s \<Rightarrow> ''string'' | JArray xs \<Rightarrow> ''array'' | JObject kvs \<Rightarrow> ''object'')"

text \<open>
  Storing a JSON value in a Go \<^verbatim>\<open>string\<close> that holds \<open>cur\<close>: \<^verbatim>\<open>null\<close> leaves it as
  it is, a string replaces it, anything else does not fit.
\<close>

definition store_string :: "json \<Rightarrow> string \<Rightarrow> error + string" where
  "store_string v cur =
     (case v of
        JNull \<Rightarrow> Inr cur
      | JString s \<Rightarrow> Inr (coerce_utf8 s)
      | _ \<Rightarrow> Inl (UnmarshalTypeError (kind v)))"

definition Unmarshal_string :: "json option \<Rightarrow> string \<Rightarrow> error + string" where
  "Unmarshal_string data cur =
     (case data of None \<Rightarrow> Inl SyntaxError | Some v \<Rightarrow> store_string v cur)"

text \<open>
  The name of an object member is matched against the field names of the struct: an
  exact match first, then a match up to case folding (\<^verbatim>\<open>foldName\<close>). Folding maps
  ASCII letters to upper case; the only other runes whose fold is an ASCII letter are
  U+017F (long s, bytes C5 BF) and U+212A (Kelvin sign, bytes E2 84 AA). Every other
  rune folds to a rune outside ASCII and is left as it is here: such a name matches none
  of the field names of this package, which are ASCII.
\<close>

definition is_lower :: "char \<Rightarrow> bool" where
  "is_lower c = (CHR ''a'' \<le> c \<and> c \<le> CHR ''z'')"

definition is_upper :: "char \<Rightarrow> bool" where
  "is_upper c = (CHR ''A'' \<le> c \<and> c \<le> CHR ''Z'')"

definition to_upper :: "char \<Rightarrow> char" where
  "to_upper c = char_of ((of_char c :: nat) - 32)"

definition to_lower :: "char \<Rightarrow> char" where
  "to_lower c = char_of ((of_char c :: nat) + 32)"

fun foldName :: "string \<Rightarrow> string" where
  "foldName [] = []"
| "foldName (c # cs) =
     (if is_lower c then to_upper c # foldName cs
      else if c = CHR 0xC5 \<and> take 1 cs = [CHR 0xBF] then CHR ''S'' # foldName (drop 1 cs)
      else if c = CHR 0xE2 \<and> take 2 cs = [CHR 0x84, CHR 0xAA] then CHR ''K'' # foldName (drop 2 cs)
      else c # foldName cs)"

definition find_field :: "string list \<Rightarrow> string \<Rightarrow> string option" where
  "find_field names key =
     (if key \<in> set names then Some key
      else find (\<lambda>n. foldName n = foldName key) names)"

text \<open>The members of an object, stored one after the other into a \<^verbatim>\<open>BytesEnvelope\<close>.\<close>

fun BytesEnvelope_members :: "(string \<times> json) list \<Rightarrow> BytesEnvelope \<Rightarrow> error + BytesEnvelope" where
  "BytesEnvelope_members [] b = Inr b"
| "BytesEnvelope_members ((k, v) # kvs) b =
     (case find_field [''content'', ''encoding''] k of
        None \<Rightarrow> BytesEnvelope_members kvs b
      | Some f \<Rightarrow>
          if f = ''content'' then
            (case store_string v (BytesEnvelope.Content b) of
               Inl e \<Rightarrow> Inl e
             | Inr s \<Rightarrow> BytesEnvelope_members kvs (b\<lparr>BytesEnvelope.Content := s\<rparr>))
          else
            (case store_string v (BytesEnvelope.Encoding b) of
               Inl e \<Rightarrow> Inl e
             | Inr s \<Rightarrow> BytesEnvelope_members kvs (b\<lparr>BytesEnvelope.Encoding := s\<rparr>)))"

text \<open>
  Storing a JSON value in a \<^verbatim>\<open>BytesEnvelope\<close> that holds \<open>cur\<close>: \<^verbatim>\<open>null\<close> leaves
  it as it is, an object is stored member by member into it, anything else does not fit.
\<close>

definition store_BytesEnvelope :: "json \<Rightarrow> BytesEnvelope \<Rightarrow> error + BytesEnvelope" where
  "store_BytesEnvelope v cur =
     (case v of
        JNull \<Rightarrow> Inr cur
      | JObject kvs \<Rightarrow> BytesEnvelope_members kvs cur
      | _ \<Rightarrow> Inl (UnmarshalTypeError (kind v)))"

fun SubmitWitness_members :: "(string \<times> json) list \<Rightarrow> SubmitWitness \<Rightarrow> error + SubmitWitness" where
  "SubmitWitness_members [] w = Inr w"
| "SubmitWitness_members ((k, v) # kvs) w =
     (case find_field [''type'', ''key'', ''signature''] k of
        None \<Rightarrow> SubmitWitness_members kvs w
      | Some f \<Rightarrow>
          if f = ''type'' then
            (case store_string v (Type w) of
               Inl e \<Rightarrow> Inl e
             | Inr s \<Rightarrow> SubmitWitness_members kvs (w\<lparr>Type := s\<rparr>))
          else if f = ''key'' then
            (case store_BytesEnvelope v (Key w) of
               Inl e \<Rightarrow> Inl e
             | Inr b \<Rightarrow> SubmitWitness_members kvs (w\<lparr>Key := b\<rparr>))
          else
            (case store_BytesEnvelope v (Signature w) of
               Inl e \<Rightarrow> Inl e
             | Inr b \<Rightarrow> SubmitWitness_members kvs (w\<lparr>Signature := b\<rparr>)))"

definition store_SubmitWitness :: "json \<Rightarrow> SubmitWitness \<Rightarrow> error + SubmitWitness" where
  "store_SubmitWitness v cur =
     (case v of
        JNull \<Rightarrow> Inr cur
      | JObject kvs \<Rightarrow> SubmitWitness_members kvs cur
      | _ \<Rightarrow> Inl (UnmarshalTypeError (kind v)))"

definition Unmarshal_SubmitWitness :: "json option \<Rightarrow> SubmitWitness \<Rightarrow> error + SubmitWitness" where
  "Unmarshal_SubmitWitness data cur =
     (case data of None \<Rightarrow> Inl SyntaxError | Some v \<Rightarrow> store_SubmitWitness v cur)"

text \<open>The zero values that \<^verbatim>\<open>var h string\<close> and \<^verbatim>\<open>var obj SubmitWitness\<close> declare.\<close>

definition zero_BytesEnvelope :: BytesEnvelope where
  "zero_BytesEnvelope = \<lparr>BytesEnvelope.Content = [], BytesEnvelope.Encoding = []\<rparr>"

definition zero_SubmitWitness :: SubmitWitness where
  "zero_SubmitWitness = \<lparr>Type = [], Key = zero_BytesEnvelope, Signature = zero_BytesEnvelope\<rparr>"

text \<open>
  \<^verbatim>\<open>(w *WitnessInput) UnmarshalJSON(data)\<close>: the receiver \<open>w\<close> is passed in and the
  updated receiver is returned; on an error it is not touched.
\<close>

definition UnmarshalJSON :: "json option \<Rightarrow> WitnessInput \<Rightarrow> error + WitnessInput" where
  "UnmarshalJSON data w =
     (case Unmarshal_string data [] of
        Inr h \<Rightarrow> Inr (w\<lparr>Hex := h, Object := None\<rparr>)
      | Inl _ \<Rightarrow>
          (case Unmarshal_SubmitWitness data zero_SubmitWitness of
             Inr obj \<Rightarrow> Inr (w\<lparr>Object := Some obj, Hex := []\<rparr>)
           | Inl _ \<Rightarrow> Inl NeitherStringNorSubmitWitness))"

section \<open>The TRP client\<close>

subsection \<open>Data\<close>

text \<open>
  A value of type \<^verbatim>\<open>interface{}\<close> that the client does nothing with but hand it to
  \<^verbatim>\<open>json.Marshal\<close> (the arguments of a transaction, the values of the environment
  mapping, the parameters of a call) is represented by what \<^verbatim>\<open>json.Marshal\<close> returns
  for it: an error, or the JSON value of its encoding.
\<close>

type_synonym any = "error + json"

text \<open>
  \<^verbatim>\<open>json.RawMessage\<close>: the bytes of a JSON value, kept for a later
  \<^verbatim>\<open>json.Unmarshal\<close>; \<open>None\<close> is the \<^verbatim>\<open>nil\<close> slice of a field that was absent.
\<close>

type_synonym RawMessage = "json option"

record TirInfo =
  Version :: string
  Content :: string
  Encoding :: string

record TxEnvelope =
  Tx :: string
  Hash :: string

text \<open>
  The two Go maps are lists of entries with distinct keys: \<open>Headers\<close> in the order in
  which \<^verbatim>\<open>range\<close> happens to visit them, \<open>EnvArgs\<close> in any order. A
  \<^verbatim>\<open>time.Duration\<close> is a number of nanoseconds.
\<close>

record ClientOptions =
  Endpoint :: string
  Headers :: "(string \<times> string) list"
  EnvArgs :: "(string \<times> any) list"
  Timeout :: int


record jsonRPCRequest =
  JSONRPC :: string
  Method :: string
  Params :: any
  ID :: string


text \<open>\<open>Witnesses\<close> is a slice: \<open>None\<close> is the \<^verbatim>\<open>nil\<close> slice.\<close>

record SubmitParams =
  Tx :: BytesEnvelope
  Witnesses :: "WitnessInput list option"

record SubmitResponse =
  Hash :: string

record jsonRPCError =
  Code :: int
  Message :: string
  Data :: "json option"

record jsonRPCResponse =
  JSONRPC :: string
  Result :: RawMessage
  Error :: "jsonRPCError option"
  ID :: string

record http_Client =
  Timeout :: int

record Client =
  options :: ClientOptions
  httpClient :: http_Client

definition Second :: int where
  "Second = 1000000000"

definition NewClient :: "ClientOptions \<Rightarrow> Client" where
  "NewClient opts =
     (let timeout = ClientOptions.Timeout opts;
          timeout = (if timeout = 0 then 30 * Second else timeout)
      in \<lparr>options = opts, httpClient = \<lparr>http_Client.Timeout = timeout\<rparr>\<rparr>)"

subsection \<open>HTTP\<close>

text \<open>
  The body of a request is represented by the JSON value whose encoding it is. The body
  of a response is what \<^verbatim>\<open>io.ReadAll\<close> returns for it: the bytes read, and the error
  that ended the reading, if any.
\<close>

record Request =
  Method :: string
  URL :: string
  Header :: "string \<rightharpoonup> string list"
  Body :: json

record Response =
  StatusCode :: int
  Body :: string
  ReadErr :: "error option"

text \<open>
  What the client takes from outside: the fresh identifier of \<^verbatim>\<open>uuid.New().String()\<close>,
  the verdict of \<^verbatim>\<open>http.NewRequest\<close> on the endpoint (\<open>None\<close> when the URL parses),
  the exchange \<^verbatim>\<open>httpClient.Do\<close> with the server, and \<^verbatim>\<open>json.Unmarshal\<close> of the
  bytes of a response body into a \<^verbatim>\<open>jsonRPCResponse\<close>.
\<close>

record env =
  uuid_New :: string
  url_Parse :: "string \<Rightarrow> error option"
  Do :: "http_Client \<Rightarrow> Request \<Rightarrow> error + Response"
  Unmarshal_jsonRPCResponse :: "string \<Rightarrow> error + jsonRPCResponse"

definition http_NewRequest :: "env \<Rightarrow> string \<Rightarrow> string \<Rightarrow> json \<Rightarrow> error + Request" where
  "http_NewRequest e method url body =
     (case url_Parse e url of
        Some err \<Rightarrow> Inl err
      | None \<Rightarrow> Inr \<lparr>Request.Method = method, URL = url, Header = Map.empty, Request.Body = body\<rparr>)"

text \<open>
  \<^verbatim>\<open>textproto.CanonicalMIMEHeaderKey\<close>: a key made of token bytes only gets an upper
  case letter at its start and after each hyphen and lower case letters elsewhere; any
  other key is returned as it is.
\<close>

definition is_digit :: "char \<Rightarrow> bool" where
  "is_digit c = (CHR ''0'' \<le> c \<and> c \<le> CHR ''9'')"

definition validHeaderFieldByte :: "char \<Rightarrow> bool" where
  "validHeaderFieldByte c =
     (is_lower c \<or> is_upper c \<or> is_digit c \<or>
      c \<in> set [CHR ''!'', CHR ''#'', CHR ''$'', CHR ''%'', CHR ''&'', CHR 0x27, CHR ''*'',
                CHR ''+'', CHR ''-'', CHR ''.'', CHR ''^'', CHR ''_'', CHR 0x60, CHR ''|'',
                CHR ''~''])"

fun canonical :: "bool \<Rightarrow> string \<Rightarrow> string" where
  "canonical upper [] = []"
| "canonical upper (c # cs) =
     (let c' = (if upper \<and> is_lower c then to_upper c
                else if \<not> upper \<and> is_upper c then to_lower c
                else c)
      in c' # canonical (c' = CHR ''-'') cs)"

definition CanonicalMIMEHeaderKey :: "string \<Rightarrow> string" where
  "CanonicalMIMEHeaderKey s = (if list_all validHeaderFieldByte s then canonical True s else s)"

text \<open>\<^verbatim>\<open>Header.Set\<close>: the values under the canonical key are replaced by the one value.\<close>

definition Header_Set :: "(string \<rightharpoonup> string list) \<Rightarrow> string \<Rightarrow> string \<Rightarrow> (string \<rightharpoonup> string list)" where
  "Header_Set h key v = h(CanonicalMIMEHeaderKey key \<mapsto> [v])"

subsection \<open>Encoding of requests\<close>





fun Marshal_WitnessInputs :: "WitnessInput list \<Rightarrow> error + json list" where
  "Marshal_WitnessInputs [] = Inr []"
| "Marshal_WitnessInputs (w # ws) =
     (case MarshalJSON w of
        Inl err \<Rightarrow> Inl err
      | Inr j \<Rightarrow>
          (case Marshal_WitnessInputs ws of
             Inl err \<Rightarrow> Inl err
           | Inr js \<Rightarrow> Inr (j # js)))"

text \<open>A \<^verbatim>\<open>nil\<close> slice is written as \<^verbatim>\<open>null\<close>, any other slice as an array.\<close>

definition Marshal_SubmitParams :: "SubmitParams \<Rightarrow> any" where
  "Marshal_SubmitParams p =
     (case Witnesses p of
        None \<Rightarrow> Inr (JObject [(''tx'', Marshal_BytesEnvelope (SubmitParams.Tx p)), (''witnesses'', JNull)])
      | Some ws \<Rightarrow>
          (case Marshal_WitnessInputs ws of
             Inl err \<Rightarrow> Inl err
           | Inr js \<Rightarrow>
               Inr (JObject [(''tx'', Marshal_BytesEnvelope (SubmitParams.Tx p)),
                             (''witnesses'', JArray js)])))"

definition Marshal_jsonRPCRequest :: "jsonRPCRequest \<Rightarrow> error + json" where
  "Marshal_jsonRPCRequest r =
     (case Params r of
        Inl err \<Rightarrow> Inl err
      | Inr p \<Rightarrow>
          Inr (JObject [(''jsonrpc'', Marshal_string (jsonRPCRequest.JSONRPC r)),
                        (''method'', Marshal_string (jsonRPCRequest.Method r)),
                        (''params'', p),
                        (''id'', Marshal_string (jsonRPCRequest.ID r))]))"

subsection \<open>Decoding of results\<close>



fun SubmitResponse_members :: "(string \<times> json) list \<Rightarrow> SubmitResponse \<Rightarrow> error + SubmitResponse" where
  "SubmitResponse_members [] r = Inr r"
| "SubmitResponse_members ((k, v) # kvs) r =
     (case find_field [''hash''] k of
        None \<Rightarrow> SubmitResponse_members kvs r
      | Some f \<Rightarrow>
          (case store_string v (SubmitResponse.Hash r) of
             Inl e \<Rightarrow> Inl e
           | Inr s \<Rightarrow> SubmitResponse_members kvs (r\<lparr>SubmitResponse.Hash := s\<rparr>)))"

definition Unmarshal_SubmitResponse :: "RawMessage \<Rightarrow> SubmitResponse \<Rightarrow> error + SubmitResponse" where
  "Unmarshal_SubmitResponse data cur =
     (case data of
        None \<Rightarrow> Inl SyntaxError
      | Some JNull \<Rightarrow> Inr cur
      | Some (JObject kvs) \<Rightarrow> SubmitResponse_members kvs cur
      | Some v \<Rightarrow> Inl (UnmarshalTypeError (kind v)))"

subsection \<open>\<^verbatim>\<open>call\<close>\<close>

text \<open>
  The first half of \<^verbatim>\<open>call\<close>, up to the request that is handed to the HTTP client:
  the envelope, its encoding, the request and its headers.
\<close>

definition call_request :: "env \<Rightarrow> Client \<Rightarrow> string \<Rightarrow> any \<Rightarrow> error + Request" where
  "call_request e c method params =
     (let requestID = uuid_New e;
          rpcRequest = \<lparr>jsonRPCRequest.JSONRPC = ''2.0'', jsonRPCRequest.Method = method,
                        Params = params, jsonRPCRequest.ID = requestID\<rparr>
      in case Marshal_jsonRPCRequest rpcRequest of
           Inl err \<Rightarrow> Inl (Errorf ''failed to marshal request'' err)
         | Inr reqBody \<Rightarrow>
             (case http_NewRequest e ''POST'' (Endpoint (options c)) reqBody of
                Inl err \<Rightarrow> Inl (Errorf ''failed to create request'' err)
              | Inr req \<Rightarrow>
                  (let req = req\<lparr>Header := Header_Set (Header req) ''Content-Type'' ''application/json''\<rparr>;
                       req = fold (\<lambda>(key, v) r. r\<lparr>Header := Header_Set (Header r) key v\<rparr>)
                               (Headers (options c)) req
                   in Inr req)))"

text \<open>The second half of \<^verbatim>\<open>call\<close>: what it makes of the response.\<close>

definition StatusOK :: int where
  "StatusOK = 200"

definition call_response :: "env \<Rightarrow> Response \<Rightarrow> error + RawMessage" where
  "call_response e resp =
     (if StatusCode resp \<noteq> StatusOK then Inl (HTTPError (StatusCode resp) (Response.Body resp))
      else
        (case ReadErr resp of
           Some err \<Rightarrow> Inl (Errorf ''failed to read response'' err)
         | None \<Rightarrow>
             (case Unmarshal_jsonRPCResponse e (Response.Body resp) of
                Inl err \<Rightarrow> Inl (Errorf ''failed to unmarshal response'' err)
              | Inr rpcResponse \<Rightarrow>
                  (case Error rpcResponse of
                     Some rpcError \<Rightarrow>
                       Inl (TRPError \<lparr>Error.Message = jsonRPCError.Message rpcError,
                                      Error.Data = jsonRPCError.Data rpcError\<rparr>)
                   | None \<Rightarrow> Inr (Result rpcResponse)))))"

definition call :: "env \<Rightarrow> Client \<Rightarrow> string \<Rightarrow> any \<Rightarrow> error + RawMessage" where
  "call e c method params =
     (case call_request e c method params of
        Inl err \<Rightarrow> Inl err
      | Inr req \<Rightarrow>
          (case Do e (httpClient c) req of
             Inl err \<Rightarrow> Inl (Errorf ''failed to send request'' err)
           | Inr resp \<Rightarrow> call_response e resp))"

subsection \<open>\<^verbatim>\<open>Resolve\<close> and \<^verbatim>\<open>Submit\<close>\<close>




text \<open>The parameters that \<^verbatim>\<open>Submit\<close> builds before the call.\<close>

definition Submit_params :: "TxEnvelope \<Rightarrow> WitnessInput list option \<Rightarrow> SubmitParams" where
  "Submit_params tx witnesses =
     \<lparr>SubmitParams.Tx = \<lparr>BytesEnvelope.Content = TxEnvelope.Tx tx, BytesEnvelope.Encoding = ''hex''\<rparr>,
      Witnesses = witnesses\<rparr>"

definition zero_SubmitResponse :: SubmitResponse where
  "zero_SubmitResponse = \<lparr>SubmitResponse.Hash = []\<rparr>"

definition Submit :: "env \<Rightarrow> Client \<Rightarrow> TxEnvelope \<Rightarrow> WitnessInput list option \<Rightarrow> error + SubmitResponse" where
  "Submit e c tx witnesses =
     (let params = Submit_params tx witnesses
      in case call e c ''trp.submit'' (Marshal_SubmitParams params) of
           Inl err \<Rightarrow> Inl err
         | Inr resultRaw \<Rightarrow>
             (case Unmarshal_SubmitResponse resultRaw zero_SubmitResponse of
                Inl err \<Rightarrow> Inl (Errorf ''failed to unmarshal result'' err)
              | Inr result \<Rightarrow> Inr result))"

section \<open>Notions used to state the properties\<close>

text \<open>Exactly one variant of a \<^verbatim>\<open>WitnessInput\<close> is populated.\<close>

definition exactly_one :: "WitnessInput \<Rightarrow> bool" where
  "exactly_one w = ((Object w \<noteq> None \<and> Hex w = []) \<or> (Object w = None \<and> Hex w \<noteq> []))"

text \<open>Every string of the value is well-formed UTF-8.\<close>

definition valid_BytesEnvelope :: "BytesEnvelope \<Rightarrow> bool" where
  "valid_BytesEnvelope b =
     (ValidString (BytesEnvelope.Content b) \<and> ValidString (BytesEnvelope.Encoding b))"

definition valid_WitnessInput :: "WitnessInput \<Rightarrow> bool" where
  "valid_WitnessInput w =
     (ValidString (Hex w) \<and>
      (case Object w of
         None \<Rightarrow> True
       | Some obj \<Rightarrow>
           ValidString (Type obj) \<and> valid_BytesEnvelope (Key obj) \<and>
           valid_BytesEnvelope (Signature obj)))"

text \<open>
  A JSON value fits a Go string when it is a string or \<^verbatim>\<open>null\<close>; it fits a
  \<^verbatim>\<open>BytesEnvelope\<close> when it is \<^verbatim>\<open>null\<close> or an object whose members named
  \<^verbatim>\<open>content\<close> or \<^verbatim>\<open>encoding\<close> fit a string; the members of an object fit a
  \<^verbatim>\<open>SubmitWitness\<close> when those named \<^verbatim>\<open>type\<close> fit a string and those named
  \<^verbatim>\<open>key\<close> or \<^verbatim>\<open>signature\<close> fit a \<^verbatim>\<open>BytesEnvelope\<close>. Names are compared
  as the decoder compares them, and members of any other name are free.
\<close>

definition fits_string :: "json \<Rightarrow> bool" where
  "fits_string v = (case v of JNull \<Rightarrow> True | JString s \<Rightarrow> True | _ \<Rightarrow> False)"

definition fits_BytesEnvelope :: "json \<Rightarrow> bool" where
  "fits_BytesEnvelope v =
     (case v of
        JNull \<Rightarrow> True
      | JObject kvs \<Rightarrow>
          list_all (\<lambda>(k, x). find_field [''content'', ''encoding''] k = None \<or> fits_string x) kvs
      | _ \<Rightarrow> False)"

definition fits_SubmitWitness :: "(string \<times> json) list \<Rightarrow> bool" where
  "fits_SubmitWitness kvs =
     list_all (\<lambda>(k, x).
        case find_field [''type'', ''key'', ''signature''] k of
          None \<Rightarrow> True
        | Some f \<Rightarrow> if f = ''type'' then fits_string x else fits_BytesEnvelope x) kvs"

text \<open>
  What the wire protocol prescribes for a witness, written out: a hex string goes as the
  JSON string of its text, a structured witness as the object of its type, key and
  signature, each of the two a pair of content and encoding.
\<close>

definition wire_witness :: "WitnessInput \<Rightarrow> json" where
  "wire_witness w =
     (case Object w of
        None \<Rightarrow> JString (Hex w)
      | Some obj \<Rightarrow>
          JObject [(''type'', JString (Type obj)),
                   (''key'', JObject [(''content'', JString (BytesEnvelope.Content (Key obj))),
                                      (''encoding'', JString (BytesEnvelope.Encoding (Key obj)))]),
                   (''signature'', JObject [(''content'', JString (BytesEnvelope.Content (Signature obj))),
                                            (''encoding'', JString (BytesEnvelope.Encoding (Signature obj)))])])"

text \<open>The strings of the populated variant, the ones that are written, are well-formed UTF-8.\<close>

definition valid_populated :: "WitnessInput \<Rightarrow> bool" where
  "valid_populated w =
     (case Object w of
        None \<Rightarrow> ValidString (Hex w)
      | Some obj \<Rightarrow>
          ValidString (Type obj) \<and> valid_BytesEnvelope (Key obj) \<and>
          valid_BytesEnvelope (Signature obj))"

text \<open>The envelope of a call, around its parameters.\<close>

definition envelope :: "env \<Rightarrow> string \<Rightarrow> json \<Rightarrow> json" where
  "envelope e method p =
     JObject [(''jsonrpc'', JString ''2.0''), (''method'', Marshal_string method),
              (''params'', p), (''id'', Marshal_string (uuid_New e))]"

subsection \<open>A sample configuration\<close>

text \<open>
  A server that answers every request with the response \<open>resp\<close>, together with what
  \<^verbatim>\<open>json.Unmarshal\<close> makes of a body.
\<close>

definition sample_env :: "Response \<Rightarrow> (error + jsonRPCResponse) \<Rightarrow> env" where
  "sample_env resp parsed =
     \<lparr>uuid_New = ''6ba7b810-9dad-41d1-80b4-00c04fd430c8'',
      url_Parse = (\<lambda>url. None),
      Do = (\<lambda>cl req. Inr resp),
      Unmarshal_jsonRPCResponse = (\<lambda>body. parsed)\<rparr>"

definition sample_options :: ClientOptions where
  "sample_options =
     \<lparr>Endpoint = ''http://localhost:8164'', Headers = [], EnvArgs = [],
      ClientOptions.Timeout = 0\<rparr>"

definition sample_response :: "int \<Rightarrow> string \<Rightarrow> Response" where
  "sample_response status body = \<lparr>StatusCode = status, Response.Body = body, ReadErr = None\<rparr>"

text \<open>A decoded response that carries both a result and an error with the given code.\<close>

definition sample_failure :: "int \<Rightarrow> jsonRPCResponse" where
  "sample_failure code =
     \<lparr>jsonRPCResponse.JSONRPC = ''2.0'',
      Result = Some (JObject [(''hash'', JString ''1234'')]),
      Error = Some \<lparr>Code = code, jsonRPCError.Message = ''unresolvable template'',
                    jsonRPCError.Data = Some (JString ''input 0'')\<rparr>,
      jsonRPCResponse.ID = ''6ba7b810-9dad-41d1-80b4-00c04fd430c8''\<rparr>"

definition sample_success :: jsonRPCResponse where
  "sample_success =
     \<lparr>jsonRPCResponse.JSONRPC = ''2.0'',
      Result = Some (JObject [(''tx'', JString ''abcd''), (''hash'', JString ''1234'')]),
      Error = None,
      jsonRPCResponse.ID = ''6ba7b810-9dad-41d1-80b4-00c04fd430c8''\<rparr>"



definition sample_witness :: SubmitWitness where
  "sample_witness =
     \<lparr>Type = ''vkey'',
      Key = \<lparr>BytesEnvelope.Content = ''a1b2'', BytesEnvelope.Encoding = ''hex''\<rparr>,
      Signature = \<lparr>BytesEnvelope.Content = ''c3d4'', BytesEnvelope.Encoding = ''hex''\<rparr>\<rparr>"

section \<open>Properties\<close>

subsection \<open>Strings\<close>

lemma coerce_utf8_valid: "ValidString s \<Longrightarrow> coerce_utf8 s = s"
  by (induction s rule: ValidString.induct) (auto split: option.splits)

subsection \<open>The timeout of a new client\<close>

text \<open>
  Claim C9. For every \<^verbatim>\<open>ClientOptions\<close> value, \<^verbatim>\<open>NewClient\<close> constructs a client
  whose HTTP transport timeout is 30 seconds when \<^verbatim>\<open>options.Timeout\<close> is zero, and
  \<^verbatim>\<open>options.Timeout\<close> otherwise.
\<close>

theorem NewClient_timeout:
  "http_Client.Timeout (httpClient (NewClient opts)) =
     (if ClientOptions.Timeout opts = 0 then 30 * 1000000000 else ClientOptions.Timeout opts)"
  by (simp add: NewClient_def Second_def)

theorem NewClient_timeout_witness:
  "http_Client.Timeout (httpClient (NewClient sample_options)) = 30000000000 \<and>
   http_Client.Timeout (httpClient (NewClient (sample_options\<lparr>ClientOptions.Timeout := 5 * Second\<rparr>)))
     = 5000000000"
  using NewClient_timeout [of sample_options]
    NewClient_timeout [of "sample_options\<lparr>ClientOptions.Timeout := 5 * Second\<rparr>"]
  by (simp add: sample_options_def Second_def)

subsection \<open>Decoding a witness\<close>

lemma find_field_BytesEnvelope:
  "find_field [''content'', ''encoding''] ''content'' = Some ''content''"
  "find_field [''content'', ''encoding''] ''encoding'' = Some ''encoding''"
  by (simp_all add: find_field_def)

lemma find_field_SubmitWitness:
  "find_field [''type'', ''key'', ''signature''] ''type'' = Some ''type''"
  "find_field [''type'', ''key'', ''signature''] ''key'' = Some ''key''"
  "find_field [''type'', ''key'', ''signature''] ''signature'' = Some ''signature''"
  by (simp_all add: find_field_def)

lemma UnmarshalJSON_JString:
  "UnmarshalJSON (Some (JString s)) w = Inr \<lparr>Object = None, Hex = coerce_utf8 s\<rparr>"
  by (simp add: UnmarshalJSON_def Unmarshal_string_def store_string_def)

lemma store_string_fits:
  "(\<exists>s. store_string v cur = Inr s) = fits_string v"
  by (cases v) (simp_all add: store_string_def fits_string_def)

lemma BytesEnvelope_members_fits:
  "(\<exists>b'. BytesEnvelope_members kvs b = Inr b') =
   list_all (\<lambda>(k, x). find_field [''content'', ''encoding''] k = None \<or> fits_string x) kvs"
proof (induction kvs arbitrary: b)
  case Nil
  show ?case by simp
next
  case (Cons kv kvs)
  obtain k v where kv: "kv = (k, v)" by (cases kv)
  show ?case
  proof (cases "find_field [''content'', ''encoding''] k")
    case None
    then show ?thesis using Cons.IH kv by simp
  next
    case (Some f)
    show ?thesis
    proof (cases "f = ''content''")
      case True
      show ?thesis
        using store_string_fits [of v "BytesEnvelope.Content b"] Some True kv Cons.IH
        by (cases "store_string v (BytesEnvelope.Content b)") (auto)
    next
      case False
      show ?thesis
        using store_string_fits [of v "BytesEnvelope.Encoding b"] Some False kv Cons.IH
        by (cases "store_string v (BytesEnvelope.Encoding b)") (auto)
    qed
  qed
qed

lemma store_BytesEnvelope_fits:
  "(\<exists>b'. store_BytesEnvelope v cur = Inr b') = fits_BytesEnvelope v"
  by (cases v) (simp_all add: store_BytesEnvelope_def fits_BytesEnvelope_def BytesEnvelope_members_fits)

lemma SubmitWitness_members_fits:
  "(\<exists>w'. SubmitWitness_members kvs w = Inr w') = fits_SubmitWitness kvs"
proof (induction kvs arbitrary: w)
  case Nil
  show ?case by (simp add: fits_SubmitWitness_def)
next
  case (Cons kv kvs)
  obtain k v where kv: "kv = (k, v)" by (cases kv)
  show ?case
  proof (cases "find_field [''type'', ''key'', ''signature''] k")
    case None
    then show ?thesis using Cons.IH kv by (simp add: fits_SubmitWitness_def)
  next
    case (Some f)
    consider "f = ''type''" | "f \<noteq> ''type''" "f = ''key''" | "f \<noteq> ''type''" "f \<noteq> ''key''"
      by blast
    then show ?thesis
    proof cases
      case 1
      show ?thesis
        using store_string_fits [of v "Type w"] Some 1 kv Cons.IH
        by (cases "store_string v (Type w)") (auto simp: fits_SubmitWitness_def)
    next
      case 2
      show ?thesis
        using store_BytesEnvelope_fits [of v "Key w"] Some 2 kv Cons.IH
        by (cases "store_BytesEnvelope v (Key w)") (auto simp: fits_SubmitWitness_def)
    next
      case 3
      show ?thesis
        using store_BytesEnvelope_fits [of v "Signature w"] Some 3 kv Cons.IH
        by (cases "store_BytesEnvelope v (Signature w)") (auto simp: fits_SubmitWitness_def)
    qed
  qed
qed

lemma SubmitWitness_members_unknown:
  "list_all (\<lambda>(k, x). find_field [''type'', ''key'', ''signature''] k = None) kvs \<Longrightarrow>
   SubmitWitness_members kvs w = Inr w"
  by (induction kvs arbitrary: w) auto

lemma UnmarshalJSON_JObject:
  "UnmarshalJSON (Some (JObject kvs)) w =
     (case SubmitWitness_members kvs zero_SubmitWitness of
        Inr obj \<Rightarrow> Inr \<lparr>Object = Some obj, Hex = []\<rparr>
      | Inl e \<Rightarrow> Inl NeitherStringNorSubmitWitness)"
  by (simp add: UnmarshalJSON_def Unmarshal_string_def store_string_def
      Unmarshal_SubmitWitness_def store_SubmitWitness_def kind_def split: sum.splits)

lemma UnmarshalJSON_error:
  "UnmarshalJSON data w = Inl e \<Longrightarrow> e = NeitherStringNorSubmitWitness"
  by (auto simp: UnmarshalJSON_def split: sum.splits)

lemma store_Marshal_BytesEnvelope:
  "valid_BytesEnvelope b \<Longrightarrow> store_BytesEnvelope (Marshal_BytesEnvelope b) cur = Inr b"
  by (simp add: valid_BytesEnvelope_def store_BytesEnvelope_def Marshal_BytesEnvelope_def
      Marshal_string_def store_string_def coerce_utf8_valid find_field_BytesEnvelope)

lemma members_Marshal_SubmitWitness:
  assumes "ValidString (Type obj)" "valid_BytesEnvelope (Key obj)" "valid_BytesEnvelope (Signature obj)"
  shows "SubmitWitness_members
           [(''type'', Marshal_string (Type obj)), (''key'', Marshal_BytesEnvelope (Key obj)),
            (''signature'', Marshal_BytesEnvelope (Signature obj))] cur = Inr obj"
  using assms
  by (simp add: find_field_SubmitWitness store_Marshal_BytesEnvelope Marshal_string_def
      store_string_def coerce_utf8_valid)

text \<open>
  Claim C4, as amended. For every \<^verbatim>\<open>WitnessInput\<close> value in which exactly one variant
  is populated and whose strings are well-formed UTF-8, encoding with \<^verbatim>\<open>MarshalJSON\<close>
  and decoding the result with \<^verbatim>\<open>UnmarshalJSON\<close> yields the value itself: the same
  variant, with equal content. (A byte that is not UTF-8 does not survive the encoding:
  see the counterexample.)
\<close>

theorem WitnessInput_roundtrip:
  assumes "exactly_one w" and "valid_WitnessInput w"
  shows "\<exists>v. MarshalJSON w = Inr v \<and> UnmarshalJSON (Some v) w0 = Inr w"
proof (cases "Object w")
  case None
  have "ValidString (Hex w)"
    using assms(2) by (simp add: valid_WitnessInput_def)
  then have "UnmarshalJSON (Some (Marshal_string (Hex w))) w0 = Inr \<lparr>Object = None, Hex = Hex w\<rparr>"
    by (simp add: Marshal_string_def UnmarshalJSON_JString coerce_utf8_valid)
  then show ?thesis
    using None by (simp add: MarshalJSON_def)
next
  case (Some obj)
  have hex: "Hex w = []"
    using assms(1) Some by (simp add: exactly_one_def)
  have "ValidString (Type obj)" "valid_BytesEnvelope (Key obj)" "valid_BytesEnvelope (Signature obj)"
    using assms(2) Some by (simp_all add: valid_WitnessInput_def)
  then have members: "SubmitWitness_members
           [(''type'', Marshal_string (Type obj)), (''key'', Marshal_BytesEnvelope (Key obj)),
            (''signature'', Marshal_BytesEnvelope (Signature obj))] zero_SubmitWitness = Inr obj"
    by (rule members_Marshal_SubmitWitness)
  have "UnmarshalJSON (Some (Marshal_SubmitWitness obj)) w0 = Inr \<lparr>Object = Some obj, Hex = []\<rparr>"
    unfolding Marshal_SubmitWitness_def UnmarshalJSON_JObject members by simp
  then show ?thesis
    using Some hex by (simp add: MarshalJSON_def)
qed

theorem WitnessInput_roundtrip_witness:
  "exactly_one \<lparr>Object = Some sample_witness, Hex = []\<rparr> \<and>
   valid_WitnessInput \<lparr>Object = Some sample_witness, Hex = []\<rparr> \<and>
   (\<exists>v. MarshalJSON \<lparr>Object = Some sample_witness, Hex = []\<rparr> = Inr v \<and>
        UnmarshalJSON (Some v) \<lparr>Object = None, Hex = ''ff00''\<rparr> =
          Inr \<lparr>Object = Some sample_witness, Hex = []\<rparr>)"
proof -
  have one: "exactly_one \<lparr>Object = Some sample_witness, Hex = []\<rparr>"
    by (simp add: exactly_one_def)
  have valid: "valid_WitnessInput \<lparr>Object = Some sample_witness, Hex = []\<rparr>"
    by (simp add: valid_WitnessInput_def valid_BytesEnvelope_def sample_witness_def)
  show ?thesis
    using one valid WitnessInput_roundtrip [OF one valid, of "\<lparr>Object = None, Hex = ''ff00''\<rparr>"]
    by simp
qed

text \<open>
  The claim as the specification states it, for every value with exactly one variant
  populated, fails on the hex string that consists of the byte FF: it is encoded as the
  JSON string U+FFFD, which decodes to the three bytes EF BF BD.
\<close>

theorem WitnessInput_roundtrip_counterexample:
  "exactly_one \<lparr>Object = None, Hex = [CHR 0xFF]\<rparr> \<and>
   MarshalJSON \<lparr>Object = None, Hex = [CHR 0xFF]\<rparr> = Inr (JString [CHR 0xEF, CHR 0xBF, CHR 0xBD]) \<and>
   UnmarshalJSON (Some (JString [CHR 0xEF, CHR 0xBF, CHR 0xBD])) \<lparr>Object = None, Hex = []\<rparr> =
     Inr \<lparr>Object = None, Hex = [CHR 0xEF, CHR 0xBF, CHR 0xBD]\<rparr> \<and>
   UnmarshalJSON (Some (JString [CHR 0xEF, CHR 0xBF, CHR 0xBD])) \<lparr>Object = None, Hex = []\<rparr> \<noteq>
     Inr \<lparr>Object = None, Hex = [CHR 0xFF]\<rparr>"
  by (simp add: exactly_one_def MarshalJSON_def Marshal_string_def UnmarshalJSON_JString
      RuneError_def acceptRange_def cont_byte_def)

text \<open>
  Claim C5. For every input that is a JSON string, decoding succeeds and populates the
  hex variant with the text of the string, the object variant being \<^verbatim>\<open>nil\<close>: the
  string shape is tried first, and the text of the string is never looked at as an
  object, whatever it is.
\<close>

theorem UnmarshalJSON_string_first:
  "UnmarshalJSON (Some (JString s)) w = Inr \<lparr>Object = None, Hex = coerce_utf8 s\<rparr>"
  by (simp add: UnmarshalJSON_def Unmarshal_string_def store_string_def)

theorem UnmarshalJSON_string_first_witness:
  "UnmarshalJSON (Some (JString ''{}'')) \<lparr>Object = Some sample_witness, Hex = []\<rparr> =
     Inr \<lparr>Object = None, Hex = ''{}''\<rparr>"
  using UnmarshalJSON_string_first [of "''{}''" "\<lparr>Object = Some sample_witness, Hex = []\<rparr>"]
  by simp

text \<open>
  Claim C10, as amended. A member of an object names a field when its name is the name
  of the field, exactly or up to the case of its letters (so \<^verbatim>\<open>TYPE\<close> names
  \<^verbatim>\<open>type\<close>). Decoding succeeds with the object variant for every JSON object whose
  members fit the fields they name (a string or \<^verbatim>\<open>null\<close> for \<^verbatim>\<open>type\<close>,
  \<^verbatim>\<open>content\<close> and \<^verbatim>\<open>encoding\<close>; an object or \<^verbatim>\<open>null\<close> for \<^verbatim>\<open>key\<close> and
  \<^verbatim>\<open>signature\<close>), the empty object and the objects with no member that names a
  field among them, which decode to the zero witness. For an object with a member that
  does not fit, the decoding error is returned. The decoding error is also returned for
  bytes that are not JSON, for every number, every boolean and every array; \<^verbatim>\<open>null\<close>
  is decoded without error, to the hex variant with the empty text. That error is the
  only one, and it is returned for no other input.
\<close>

theorem UnmarshalJSON_object:
  "(fits_SubmitWitness kvs \<longrightarrow>
      (\<exists>obj. UnmarshalJSON (Some (JObject kvs)) w = Inr \<lparr>Object = Some obj, Hex = []\<rparr>)) \<and>
   (list_all (\<lambda>(k, x). find_field [''type'', ''key'', ''signature''] k = None) kvs \<longrightarrow>
      UnmarshalJSON (Some (JObject kvs)) w = Inr \<lparr>Object = Some zero_SubmitWitness, Hex = []\<rparr>) \<and>
   (\<not> fits_SubmitWitness kvs \<longrightarrow>
      UnmarshalJSON (Some (JObject kvs)) w = Inl NeitherStringNorSubmitWitness) \<and>
   UnmarshalJSON None w = Inl NeitherStringNorSubmitWitness \<and>
   UnmarshalJSON (Some (JNumber n)) w = Inl NeitherStringNorSubmitWitness \<and>
   UnmarshalJSON (Some (JBool b)) w = Inl NeitherStringNorSubmitWitness \<and>
   UnmarshalJSON (Some (JArray xs)) w = Inl NeitherStringNorSubmitWitness \<and>
   UnmarshalJSON (Some JNull) w = Inr \<lparr>Object = None, Hex = []\<rparr> \<and>
   (UnmarshalJSON data w = Inl e \<longrightarrow>
      e = NeitherStringNorSubmitWitness \<and>
      (case data of
         None \<Rightarrow> True
       | Some (JObject kvs') \<Rightarrow> \<not> fits_SubmitWitness kvs'
       | Some (JString s) \<Rightarrow> False
       | Some JNull \<Rightarrow> False
       | Some v \<Rightarrow> True))"
proof (intro conjI impI)
  assume "fits_SubmitWitness kvs"
  then obtain obj where "SubmitWitness_members kvs zero_SubmitWitness = Inr obj"
    using SubmitWitness_members_fits by blast
  then show "\<exists>obj. UnmarshalJSON (Some (JObject kvs)) w = Inr \<lparr>Object = Some obj, Hex = []\<rparr>"
    by (simp add: UnmarshalJSON_JObject)
next
  assume "list_all (\<lambda>(k, x). find_field [''type'', ''key'', ''signature''] k = None) kvs"
  then show "UnmarshalJSON (Some (JObject kvs)) w = Inr \<lparr>Object = Some zero_SubmitWitness, Hex = []\<rparr>"
    by (simp add: UnmarshalJSON_JObject SubmitWitness_members_unknown)
next
  assume "\<not> fits_SubmitWitness kvs"
  then have "\<nexists>obj. SubmitWitness_members kvs zero_SubmitWitness = Inr obj"
    using SubmitWitness_members_fits by blast
  then show "UnmarshalJSON (Some (JObject kvs)) w = Inl NeitherStringNorSubmitWitness"
    by (simp add: UnmarshalJSON_JObject split: sum.splits)
next
  show "UnmarshalJSON None w = Inl NeitherStringNorSubmitWitness"
    by (simp add: UnmarshalJSON_def Unmarshal_string_def Unmarshal_SubmitWitness_def)
next
  show "UnmarshalJSON (Some (JNumber n)) w = Inl NeitherStringNorSubmitWitness"
    by (simp add: UnmarshalJSON_def Unmarshal_string_def store_string_def
        Unmarshal_SubmitWitness_def store_SubmitWitness_def)
next
  show "UnmarshalJSON (Some (JBool b)) w = Inl NeitherStringNorSubmitWitness"
    by (simp add: UnmarshalJSON_def Unmarshal_string_def store_string_def
        Unmarshal_SubmitWitness_def store_SubmitWitness_def)
next
  show "UnmarshalJSON (Some (JArray xs)) w = Inl NeitherStringNorSubmitWitness"
    by (simp add: UnmarshalJSON_def Unmarshal_string_def store_string_def
        Unmarshal_SubmitWitness_def store_SubmitWitness_def)
next
  show "UnmarshalJSON (Some JNull) w = Inr \<lparr>Object = None, Hex = []\<rparr>"
    by (simp add: UnmarshalJSON_def Unmarshal_string_def store_string_def)
next
  assume err: "UnmarshalJSON data w = Inl e"
  then show "e = NeitherStringNorSubmitWitness" by (rule UnmarshalJSON_error)
next
  assume err: "UnmarshalJSON data w = Inl e"
  show "case data of
         None \<Rightarrow> True
       | Some (JObject kvs') \<Rightarrow> \<not> fits_SubmitWitness kvs'
       | Some (JString s) \<Rightarrow> False
       | Some JNull \<Rightarrow> False
       | Some v \<Rightarrow> True"
  proof (cases data)
    case None
    then show ?thesis by simp
  next
    case (Some v)
    show ?thesis
    proof (cases v)
      case (JObject kvs')
      have "\<nexists>obj. SubmitWitness_members kvs' zero_SubmitWitness = Inr obj"
        using err Some JObject by (auto simp: UnmarshalJSON_JObject)
      then show ?thesis using Some JObject SubmitWitness_members_fits by auto
    qed (use err Some in \<open>simp_all add: UnmarshalJSON_def Unmarshal_string_def store_string_def\<close>)
  qed
qed

theorem UnmarshalJSON_object_witness:
  "fits_SubmitWitness [(''TYPE'', JString ''vkey''), (''key'', JObject [(''content'', JString ''a1b2'')]),
                       (''memo'', JNumber ''7'')] \<and>
   (\<exists>obj. UnmarshalJSON (Some (JObject [(''TYPE'', JString ''vkey''),
                                         (''key'', JObject [(''content'', JString ''a1b2'')]),
                                         (''memo'', JNumber ''7'')])) \<lparr>Object = None, Hex = ''ff00''\<rparr> =
           Inr \<lparr>Object = Some obj, Hex = []\<rparr>) \<and>
   list_all (\<lambda>(k, x). find_field [''type'', ''key'', ''signature''] k = None) [(''memo'', JNumber ''7'')] \<and>
   UnmarshalJSON (Some (JObject [(''memo'', JNumber ''7'')])) \<lparr>Object = None, Hex = ''ff00''\<rparr> =
     Inr \<lparr>Object = Some zero_SubmitWitness, Hex = []\<rparr> \<and>
   \<not> fits_SubmitWitness [(''TYPE'', JNumber ''1'')] \<and>
   UnmarshalJSON (Some (JObject [(''TYPE'', JNumber ''1'')])) \<lparr>Object = None, Hex = ''ff00''\<rparr> =
     Inl NeitherStringNorSubmitWitness \<and>
   UnmarshalJSON None \<lparr>Object = None, Hex = ''ff00''\<rparr> = Inl NeitherStringNorSubmitWitness \<and>
   UnmarshalJSON (Some (JNumber ''42'')) \<lparr>Object = None, Hex = ''ff00''\<rparr> =
     Inl NeitherStringNorSubmitWitness \<and>
   UnmarshalJSON (Some (JBool True)) \<lparr>Object = None, Hex = ''ff00''\<rparr> =
     Inl NeitherStringNorSubmitWitness \<and>
   UnmarshalJSON (Some (JArray [JString ''ff00''])) \<lparr>Object = None, Hex = ''ff00''\<rparr> =
     Inl NeitherStringNorSubmitWitness \<and>
   UnmarshalJSON (Some JNull) \<lparr>Object = None, Hex = ''ff00''\<rparr> = Inr \<lparr>Object = None, Hex = []\<rparr>"
proof -
  have fits: "fits_SubmitWitness [(''TYPE'', JString ''vkey''),
                (''key'', JObject [(''content'', JString ''a1b2'')]), (''memo'', JNumber ''7'')]"
    by code_simp
  have unknown: "list_all (\<lambda>(k, x). find_field [''type'', ''key'', ''signature''] k = None)
                   [(''memo'', JNumber ''7'')]"
    by code_simp
  have misfit: "\<not> fits_SubmitWitness [(''TYPE'', JNumber ''1'')]"
    by code_simp
  show ?thesis
    using fits unknown misfit
      UnmarshalJSON_object [where kvs = "[(''TYPE'', JString ''vkey''),
                (''key'', JObject [(''content'', JString ''a1b2'')]), (''memo'', JNumber ''7'')]"
          and w = "\<lparr>Object = None, Hex = ''ff00''\<rparr>" and n = "''42''" and b = True
          and xs = "[JString ''ff00'']" and data = "Some (JArray [JString ''ff00''])"
          and e = NeitherStringNorSubmitWitness]
      UnmarshalJSON_object [where kvs = "[(''memo'', JNumber ''7'')]"
          and w = "\<lparr>Object = None, Hex = ''ff00''\<rparr>" and n = "''42''" and b = True
          and xs = "[JString ''ff00'']" and data = "Some (JArray [JString ''ff00''])"
          and e = NeitherStringNorSubmitWitness]
      UnmarshalJSON_object [where kvs = "[(''TYPE'', JNumber ''1'')]"
          and w = "\<lparr>Object = None, Hex = ''ff00''\<rparr>" and n = "''42''" and b = True
          and xs = "[JString ''ff00'']" and data = "Some (JArray [JString ''ff00''])"
          and e = NeitherStringNorSubmitWitness]
    by blast
qed

text \<open>
  The claim as stated, that every JSON object decodes to the object variant, fails on
  the object whose \<^verbatim>\<open>type\<close> is the number 1.
\<close>

theorem UnmarshalJSON_object_counterexample:
  "UnmarshalJSON (Some (JObject [(''type'', JNumber ''1'')])) \<lparr>Object = None, Hex = []\<rparr> =
     Inl NeitherStringNorSubmitWitness"
  by (simp add: UnmarshalJSON_JObject find_field_SubmitWitness store_string_def)

subsection \<open>The outbound request\<close>

lemma fold_Header:
  "Header (fold (\<lambda>(key, v) r. r\<lparr>Header := Header_Set (Header r) key v\<rparr>) hs req) k =
     (case find (\<lambda>kv. CanonicalMIMEHeaderKey (fst kv) = k) (rev hs) of
        Some kv \<Rightarrow> Some [snd kv]
      | None \<Rightarrow> Header req k)"
proof (induction hs rule: rev_induct)
  case Nil
  show ?case by simp
next
  case (snoc h hs)
  obtain key v where h: "h = (key, v)" by (cases h)
  show ?case using snoc.IH by (auto simp: h Header_Set_def)
qed

lemma fold_Body:
  "Request.Body (fold (\<lambda>(key, v) r. r\<lparr>Header := Header_Set (Header r) key v\<rparr>) hs req) =
     Request.Body req"
  by (induction hs arbitrary: req) auto

lemma Marshal_string_version: "Marshal_string ''2.0'' = JString ''2.0''"
  by (simp add: Marshal_string_def)

lemma Canonical_Content_Type: "CanonicalMIMEHeaderKey ''Content-Type'' = ''Content-Type''"
  by (simp add: CanonicalMIMEHeaderKey_def validHeaderFieldByte_def is_lower_def is_upper_def
      is_digit_def Let_def)

lemma Canonical_api_key: "CanonicalMIMEHeaderKey ''dmtr-api-key'' = ''Dmtr-Api-Key''"
  by code_simp

lemma Canonical_x_api_key:
  "CanonicalMIMEHeaderKey ''x-api-key'' = ''X-Api-Key''"
  "CanonicalMIMEHeaderKey ''X-Api-Key'' = ''X-Api-Key''"
  by code_simp+

lemma call_request_Inr:
  assumes "call_request e c method params = Inr req"
  shows "\<exists>p. params = Inr p \<and> url_Parse e (Endpoint (options c)) = None \<and>
     req = fold (\<lambda>(key, v) r. r\<lparr>Header := Header_Set (Header r) key v\<rparr>) (Headers (options c))
             \<lparr>Request.Method = ''POST'', URL = Endpoint (options c),
              Header = Header_Set Map.empty ''Content-Type'' ''application/json'',
              Request.Body = envelope e method p\<rparr>"
  using assms
  by (auto simp: call_request_def Let_def http_NewRequest_def Marshal_jsonRPCRequest_def
      envelope_def Marshal_string_version split: sum.splits option.splits)

lemma call_request_ok:
  assumes "url_Parse e (Endpoint (options c)) = None"
  shows "call_request e c method (Inr p) =
     Inr (fold (\<lambda>(key, v) r. r\<lparr>Header := Header_Set (Header r) key v\<rparr>) (Headers (options c))
             \<lparr>Request.Method = ''POST'', URL = Endpoint (options c),
              Header = Header_Set Map.empty ''Content-Type'' ''application/json'',
              Request.Body = envelope e method p\<rparr>)"
  using assms
  by (simp add: call_request_def Let_def http_NewRequest_def Marshal_jsonRPCRequest_def
      envelope_def Marshal_string_version)

lemma call_request_Header:
  assumes "call_request e c method params = Inr req"
  shows "Header req k =
     (case find (\<lambda>kv. CanonicalMIMEHeaderKey (fst kv) = k) (rev (Headers (options c))) of
        Some kv \<Rightarrow> Some [snd kv]
      | None \<Rightarrow> if k = ''Content-Type'' then Some [''application/json''] else None)"
proof -
  from call_request_Inr [OF assms] obtain r0 where
    req: "req = fold (\<lambda>(key, v) r. r\<lparr>Header := Header_Set (Header r) key v\<rparr>) (Headers (options c)) r0"
    and r0: "Header r0 = Header_Set Map.empty ''Content-Type'' ''application/json''"
    by force
  show ?thesis
    unfolding req fold_Header r0
    by (simp add: Header_Set_def Canonical_Content_Type split: option.splits)
qed

lemma call_request_Body:
  assumes "call_request e c method params = Inr req"
  shows "\<exists>p. params = Inr p \<and> Request.Body req = envelope e method p"
  using call_request_Inr [OF assms] by (auto simp: fold_Body)

lemma find_distinct:
  "distinct (map f xs) \<Longrightarrow> x \<in> set xs \<Longrightarrow> find (\<lambda>y. f y = f x) xs = Some x"
  by (induction xs) (auto simp: image_iff)

lemma sample_call_request:
  "call_request (sample_env resp parsed) (NewClient sample_options) method (Inr p) =
     Inr \<lparr>Request.Method = ''POST'', URL = ''http://localhost:8164'',
          Header = [''Content-Type'' \<mapsto> [''application/json'']],
          Request.Body = envelope (sample_env resp parsed) method p\<rparr>"
proof -
  have "url_Parse (sample_env resp parsed) (Endpoint (options (NewClient sample_options))) = None"
    by (simp add: sample_env_def)
  from call_request_ok [OF this]
  show ?thesis
    by (simp add: NewClient_def sample_options_def Header_Set_def Canonical_Content_Type)
qed

lemma sample_Do: "Do (sample_env resp parsed) cl req = Inr resp"
  by (simp add: sample_env_def)

lemma sample_Unmarshal: "Unmarshal_jsonRPCResponse (sample_env resp parsed) body = parsed"
  by (simp add: sample_env_def)

text \<open>
  Claim C2, as amended. For every call, the headers of the outbound HTTP request are
  these and no others: under each name that is the canonical form of a configured key,
  the one value of the entry with that canonical form that the iteration over the
  header map visits last; and \<^verbatim>\<open>Content-Type: application/json\<close> when no configured
  key has the canonical form \<^verbatim>\<open>Content-Type\<close>. So the request carries
  \<^verbatim>\<open>Content-Type: application/json\<close> as long as no configured key has that canonical
  form, and when the canonical forms of the configured keys are pairwise different,
  every configured header is applied: the request carries each configured value under
  the canonical form of its key. A configured \<^verbatim>\<open>Content-Type\<close> entry is applied like
  any other, and so replaces \<^verbatim>\<open>application/json\<close> (see the counterexample); of two
  configured keys with one canonical form, such as \<^verbatim>\<open>x-api-key\<close> and
  \<^verbatim>\<open>X-Api-Key\<close>, the value visited last replaces the other.
\<close>

theorem call_request_headers:
  assumes "call_request e c method params = Inr req"
  shows "(\<forall>k. Header req k =
            (case find (\<lambda>kv. CanonicalMIMEHeaderKey (fst kv) = k) (rev (Headers (options c))) of
               Some kv \<Rightarrow> Some [snd kv]
             | None \<Rightarrow> if k = ''Content-Type'' then Some [''application/json''] else None)) \<and>
         (list_all (\<lambda>kv. CanonicalMIMEHeaderKey (fst kv) \<noteq> ''Content-Type'') (Headers (options c)) \<longrightarrow>
            Header req ''Content-Type'' = Some [''application/json'']) \<and>
         (distinct (map (\<lambda>kv. CanonicalMIMEHeaderKey (fst kv)) (Headers (options c))) \<longrightarrow>
            (\<forall>kv \<in> set (Headers (options c)).
               Header req (CanonicalMIMEHeaderKey (fst kv)) = Some [snd kv]))"
proof (intro conjI impI ballI allI)
  fix k
  show "Header req k =
            (case find (\<lambda>kv. CanonicalMIMEHeaderKey (fst kv) = k) (rev (Headers (options c))) of
               Some kv \<Rightarrow> Some [snd kv]
             | None \<Rightarrow> if k = ''Content-Type'' then Some [''application/json''] else None)"
    by (rule call_request_Header [OF assms])
next
  assume "list_all (\<lambda>kv. CanonicalMIMEHeaderKey (fst kv) \<noteq> ''Content-Type'') (Headers (options c))"
  then have "find (\<lambda>kv. CanonicalMIMEHeaderKey (fst kv) = ''Content-Type'') (rev (Headers (options c))) = None"
    by (force simp: find_None_iff list_all_iff)
  then show "Header req ''Content-Type'' = Some [''application/json'']"
    by (simp add: call_request_Header [OF assms])
next
  fix kv
  assume dist: "distinct (map (\<lambda>kv. CanonicalMIMEHeaderKey (fst kv)) (Headers (options c)))"
    and kv: "kv \<in> set (Headers (options c))"
  have "distinct (map (\<lambda>kv. CanonicalMIMEHeaderKey (fst kv)) (rev (Headers (options c))))"
    using dist by (simp add: rev_map [symmetric])
  moreover have "kv \<in> set (rev (Headers (options c)))"
    using kv by simp
  ultimately have "find (\<lambda>y. CanonicalMIMEHeaderKey (fst y) = CanonicalMIMEHeaderKey (fst kv))
                     (rev (Headers (options c))) = Some kv"
    by (rule find_distinct)
  then show "Header req (CanonicalMIMEHeaderKey (fst kv)) = Some [snd kv]"
    by (simp add: call_request_Header [OF assms])
qed

theorem call_request_headers_witness:
  "(\<exists>req. call_request (sample_env (sample_response 200 ''{}'') (Inr sample_success))
            (NewClient (sample_options\<lparr>Headers := [(''dmtr-api-key'', ''secret'')]\<rparr>))
            ''trp.resolve'' (Inr JNull) = Inr req \<and>
         Header req ''Content-Type'' = Some [''application/json''] \<and>
         Header req ''Dmtr-Api-Key'' = Some [''secret''] \<and>
         Header req ''dmtr-api-key'' = None) \<and>
   (\<exists>req. call_request (sample_env (sample_response 200 ''{}'') (Inr sample_success))
            (NewClient (sample_options\<lparr>Headers := [(''x-api-key'', ''one''), (''X-Api-Key'', ''two'')]\<rparr>))
            ''trp.resolve'' (Inr JNull) = Inr req \<and>
         Header req ''Content-Type'' = Some [''application/json''] \<and>
         Header req ''X-Api-Key'' = Some [''two''] \<and>
         Header req ''x-api-key'' = None)"
proof -
  let ?e = "sample_env (sample_response 200 ''{}'') (Inr sample_success)"
  let ?c = "NewClient (sample_options\<lparr>Headers := [(''dmtr-api-key'', ''secret'')]\<rparr>)"
  let ?c' = "NewClient (sample_options\<lparr>Headers := [(''x-api-key'', ''one''), (''X-Api-Key'', ''two'')]\<rparr>)"
  have hs: "Headers (options ?c) = [(''dmtr-api-key'', ''secret'')]"
    and hs': "Headers (options ?c') = [(''x-api-key'', ''one''), (''X-Api-Key'', ''two'')]"
    by (simp_all add: NewClient_def sample_options_def)
  have url: "url_Parse ?e (Endpoint (options ?c)) = None" "url_Parse ?e (Endpoint (options ?c')) = None"
    by (simp_all add: sample_env_def)
  from call_request_ok [OF url(1), of "''trp.resolve''" JNull]
  obtain req where req: "call_request ?e ?c ''trp.resolve'' (Inr JNull) = Inr req"
    by blast
  from call_request_ok [OF url(2), of "''trp.resolve''" JNull]
  obtain req' where req': "call_request ?e ?c' ''trp.resolve'' (Inr JNull) = Inr req'"
    by blast
  have dist: "distinct (map (\<lambda>kv. CanonicalMIMEHeaderKey (fst kv)) (Headers (options ?c)))"
    and plain: "list_all (\<lambda>kv. CanonicalMIMEHeaderKey (fst kv) \<noteq> ''Content-Type'') (Headers (options ?c))"
    by (simp_all add: hs Canonical_api_key)
  from call_request_headers [OF req] dist plain
  have "Header req ''Content-Type'' = Some [''application/json'']"
    and "Header req ''Dmtr-Api-Key'' = Some [''secret'']"
    and "Header req ''dmtr-api-key'' = None"
    by (simp_all add: hs Canonical_api_key)
  moreover from call_request_headers [OF req']
  have "Header req' ''Content-Type'' = Some [''application/json'']"
    and "Header req' ''X-Api-Key'' = Some [''two'']"
    and "Header req' ''x-api-key'' = None"
    by (simp_all add: hs' Canonical_x_api_key)
  ultimately show ?thesis
    using req req' by blast
qed

text \<open>
  The claim as stated, that the content type cannot be overridden through the header
  map, fails on the header map with the one entry \<^verbatim>\<open>Content-Type: text/plain\<close>: the
  request goes out with that content type.
\<close>

theorem call_request_headers_counterexample:
  "call_request (sample_env (sample_response 200 ''{}'') (Inr sample_success))
     (NewClient (sample_options\<lparr>Headers := [(''Content-Type'', ''text/plain'')]\<rparr>))
     ''trp.resolve'' (Inr JNull) =
   Inr \<lparr>Request.Method = ''POST'', URL = ''http://localhost:8164'',
        Header = [''Content-Type'' \<mapsto> [''text/plain'']],
        Request.Body = envelope (sample_env (sample_response 200 ''{}'') (Inr sample_success))
                         ''trp.resolve'' JNull\<rparr>"
proof -
  let ?e = "sample_env (sample_response 200 ''{}'') (Inr sample_success)"
  let ?c = "NewClient (sample_options\<lparr>Headers := [(''Content-Type'', ''text/plain'')]\<rparr>)"
  have "url_Parse ?e (Endpoint (options ?c)) = None"
    by (simp add: sample_env_def)
  from call_request_ok [OF this, of "''trp.resolve''" JNull]
  show ?thesis
    by (simp add: NewClient_def sample_options_def Header_Set_def Canonical_Content_Type)
qed

subsection \<open>The parameters of \<^verbatim>\<open>Resolve\<close> and \<^verbatim>\<open>Submit\<close>\<close>



lemma MarshalJSON_wire:
  "valid_populated w \<Longrightarrow> MarshalJSON w = Inr (wire_witness w)"
  by (auto simp: MarshalJSON_def wire_witness_def valid_populated_def valid_BytesEnvelope_def
      Marshal_SubmitWitness_def Marshal_BytesEnvelope_def Marshal_string_def coerce_utf8_valid
      split: option.splits)

lemma Marshal_WitnessInputs_wire:
  "list_all valid_populated ws \<Longrightarrow> Marshal_WitnessInputs ws = Inr (map wire_witness ws)"
  by (induction ws) (simp_all add: MarshalJSON_wire)


lemma Marshal_string_hex: "Marshal_string ''hex'' = JString ''hex''"
  by (simp add: Marshal_string_def)



text \<open>
  Claim C7, as amended. For every \<^verbatim>\<open>Submit\<close> call with a transaction envelope
  \<open>tx\<close> whose \<^verbatim>\<open>tx.Tx\<close> is well-formed UTF-8 and a witness sequence \<open>witnesses\<close>
  whose written strings are well-formed UTF-8, the parameters are encoded as the object
  whose \<^verbatim>\<open>tx\<close> member is the object with \<^verbatim>\<open>content\<close> the string \<^verbatim>\<open>tx.Tx\<close> and
  \<^verbatim>\<open>encoding\<close> the string \<^verbatim>\<open>hex\<close>, and whose \<^verbatim>\<open>witnesses\<close> member is, for a
  sequence that is not \<^verbatim>\<open>nil\<close>, the array of the witnesses, one for one and in the
  order given (a hex witness as the JSON string of its text, a structured witness as the
  object of its type, key and signature), and \<^verbatim>\<open>null\<close> for the \<^verbatim>\<open>nil\<close> sequence;
  and this object is the \<^verbatim>\<open>params\<close> member of the body of the request that
  \<^verbatim>\<open>Submit\<close> hands to the HTTP client.
\<close>

theorem Submit_params_json:
  assumes "ValidString (TxEnvelope.Tx tx)"
    and "case witnesses of None \<Rightarrow> True | Some ws \<Rightarrow> list_all valid_populated ws"
  shows "Marshal_SubmitParams (Submit_params tx witnesses) =
     Inr (JObject [(''tx'', JObject [(''content'', JString (TxEnvelope.Tx tx)),
                                     (''encoding'', JString ''hex'')]),
                   (''witnesses'', (case witnesses of
                                      None \<Rightarrow> JNull
                                    | Some ws \<Rightarrow> JArray (map wire_witness ws)))]) \<and>
   (call_request e c ''trp.submit'' (Marshal_SubmitParams (Submit_params tx witnesses)) = Inr req \<longrightarrow>
      Request.Body req =
        JObject [(''jsonrpc'', JString ''2.0''), (''method'', JString ''trp.submit''),
                 (''params'', JObject [(''tx'', JObject [(''content'', JString (TxEnvelope.Tx tx)),
                                     (''encoding'', JString ''hex'')]),
                   (''witnesses'', (case witnesses of
                                      None \<Rightarrow> JNull
                                    | Some ws \<Rightarrow> JArray (map wire_witness ws)))]),
                 (''id'', JString (coerce_utf8 (uuid_New e)))] \<and>
      Submit e c tx witnesses =
        (case Do e (httpClient c) req of
           Inl err \<Rightarrow> Inl (Errorf ''failed to send request'' err)
         | Inr resp \<Rightarrow>
             (case call_response e resp of
                Inl err \<Rightarrow> Inl err
              | Inr resultRaw \<Rightarrow>
                  (case Unmarshal_SubmitResponse resultRaw zero_SubmitResponse of
                     Inl err \<Rightarrow> Inl (Errorf ''failed to unmarshal result'' err)
                   | Inr result \<Rightarrow> Inr result))))"
proof -
  have params: "Marshal_SubmitParams (Submit_params tx witnesses) =
     Inr (JObject [(''tx'', JObject [(''content'', JString (TxEnvelope.Tx tx)),
                                     (''encoding'', JString ''hex'')]),
                   (''witnesses'', (case witnesses of
                                      None \<Rightarrow> JNull
                                    | Some ws \<Rightarrow> JArray (map wire_witness ws)))])"
    using assms
    by (simp add: Marshal_SubmitParams_def Submit_params_def Marshal_BytesEnvelope_def
        Marshal_string_hex Marshal_string_def coerce_utf8_valid Marshal_WitnessInputs_wire
        split: option.splits)
  show ?thesis
  proof (intro conjI impI)
    show "Marshal_SubmitParams (Submit_params tx witnesses) =
     Inr (JObject [(''tx'', JObject [(''content'', JString (TxEnvelope.Tx tx)),
                                     (''encoding'', JString ''hex'')]),
                   (''witnesses'', (case witnesses of
                                      None \<Rightarrow> JNull
                                    | Some ws \<Rightarrow> JArray (map wire_witness ws)))])"
      by (rule params)
  next
    assume req: "call_request e c ''trp.submit'' (Marshal_SubmitParams (Submit_params tx witnesses)) = Inr req"
    show "Submit e c tx witnesses =
        (case Do e (httpClient c) req of
           Inl err \<Rightarrow> Inl (Errorf ''failed to send request'' err)
         | Inr resp \<Rightarrow>
             (case call_response e resp of
                Inl err \<Rightarrow> Inl err
              | Inr resultRaw \<Rightarrow>
                  (case Unmarshal_SubmitResponse resultRaw zero_SubmitResponse of
                     Inl err \<Rightarrow> Inl (Errorf ''failed to unmarshal result'' err)
                   | Inr result \<Rightarrow> Inr result)))"
      by (simp add: Submit_def call_def req split: sum.splits)
    from call_request_Body [OF req] show "Request.Body req =
        JObject [(''jsonrpc'', JString ''2.0''), (''method'', JString ''trp.submit''),
                 (''params'', JObject [(''tx'', JObject [(''content'', JString (TxEnvelope.Tx tx)),
                                     (''encoding'', JString ''hex'')]),
                   (''witnesses'', (case witnesses of
                                      None \<Rightarrow> JNull
                                    | Some ws \<Rightarrow> JArray (map wire_witness ws)))]),
                 (''id'', JString (coerce_utf8 (uuid_New e)))]"
      unfolding params by (auto simp: envelope_def Marshal_string_def)
  qed
qed

theorem Submit_params_json_witness:
  "ValidString ''abcd'' \<and>
   list_all valid_populated [\<lparr>Object = None, Hex = ''ff00''\<rparr>, \<lparr>Object = Some sample_witness, Hex = []\<rparr>] \<and>
   (\<exists>req. call_request (sample_env (sample_response 200 ''{}'') (Inr sample_success))
            (NewClient sample_options) ''trp.submit''
            (Marshal_SubmitParams
               (Submit_params \<lparr>TxEnvelope.Tx = ''abcd'', TxEnvelope.Hash = ''1234''\<rparr>
                  (Some [\<lparr>Object = None, Hex = ''ff00''\<rparr>, \<lparr>Object = Some sample_witness, Hex = []\<rparr>])))
           = Inr req \<and>
         Request.Body req =
           JObject [(''jsonrpc'', JString ''2.0''), (''method'', JString ''trp.submit''),
             (''params'',
              JObject [(''tx'', JObject [(''content'', JString ''abcd''), (''encoding'', JString ''hex'')]),
                       (''witnesses'',
                        JArray [JString ''ff00'',
                                JObject [(''type'', JString ''vkey''),
                                         (''key'', JObject [(''content'', JString ''a1b2''),
                                                            (''encoding'', JString ''hex'')]),
                                         (''signature'', JObject [(''content'', JString ''c3d4''),
                                                                  (''encoding'', JString ''hex'')])]])]),
             (''id'', JString ''6ba7b810-9dad-41d1-80b4-00c04fd430c8'')])"
proof -
  let ?e = "sample_env (sample_response 200 ''{}'') (Inr sample_success)"
  let ?c = "NewClient sample_options"
  let ?tx = "\<lparr>TxEnvelope.Tx = ''abcd'', TxEnvelope.Hash = ''1234''\<rparr>"
  let ?ws = "Some [\<lparr>Object = None, Hex = ''ff00''\<rparr>, \<lparr>Object = Some sample_witness, Hex = []\<rparr>]"
  have tx: "ValidString (TxEnvelope.Tx ?tx)"
    by simp
  have ws: "list_all valid_populated [\<lparr>Object = None, Hex = ''ff00''\<rparr>, \<lparr>Object = Some sample_witness, Hex = []\<rparr>]"
    by (simp add: valid_populated_def valid_BytesEnvelope_def sample_witness_def)
  then have ws': "case ?ws of None \<Rightarrow> True | Some ws \<Rightarrow> list_all valid_populated ws"
    by simp
  have url: "url_Parse ?e (Endpoint (options ?c)) = None"
    by (simp add: sample_env_def)
  from Submit_params_json [OF tx ws', of ?e ?c] call_request_ok [OF url, of "''trp.submit''"]
  obtain req where req: "call_request ?e ?c ''trp.submit''
      (Marshal_SubmitParams (Submit_params ?tx ?ws)) = Inr req"
    by auto
  from Submit_params_json [OF tx ws', of ?e ?c req] req
  have "Request.Body req =
           JObject [(''jsonrpc'', JString ''2.0''), (''method'', JString ''trp.submit''),
             (''params'',
              JObject [(''tx'', JObject [(''content'', JString ''abcd''), (''encoding'', JString ''hex'')]),
                       (''witnesses'',
                        JArray [JString ''ff00'',
                                JObject [(''type'', JString ''vkey''),
                                         (''key'', JObject [(''content'', JString ''a1b2''),
                                                            (''encoding'', JString ''hex'')]),
                                         (''signature'', JObject [(''content'', JString ''c3d4''),
                                                                  (''encoding'', JString ''hex'')])]])]),
             (''id'', JString ''6ba7b810-9dad-41d1-80b4-00c04fd430c8'')]"
    by (simp add: wire_witness_def sample_witness_def sample_env_def)
  with req ws show ?thesis by auto
qed

text \<open>
  The claim as stated, for every envelope and every witness sequence, fails on the
  \<^verbatim>\<open>nil\<close> sequence, where the \<^verbatim>\<open>witnesses\<close> member is \<^verbatim>\<open>null\<close> and not a
  sequence, and on the envelope whose \<^verbatim>\<open>tx.Tx\<close> is the byte FF, where \<^verbatim>\<open>content\<close>
  is the string U+FFFD (the bytes EF BF BD) and not \<^verbatim>\<open>tx.Tx\<close>.
\<close>

theorem Submit_params_json_counterexample:
  "Marshal_SubmitParams (Submit_params \<lparr>TxEnvelope.Tx = ''abcd'', TxEnvelope.Hash = ''1234''\<rparr> None) =
     Inr (JObject [(''tx'', JObject [(''content'', JString ''abcd''), (''encoding'', JString ''hex'')]),
                   (''witnesses'', JNull)]) \<and>
   Marshal_SubmitParams (Submit_params \<lparr>TxEnvelope.Tx = [CHR 0xFF], TxEnvelope.Hash = ''1234''\<rparr>
                           (Some [\<lparr>Object = None, Hex = ''ff00''\<rparr>])) =
     Inr (JObject [(''tx'', JObject [(''content'', JString [CHR 0xEF, CHR 0xBF, CHR 0xBD]),
                                     (''encoding'', JString ''hex'')]),
                   (''witnesses'', JArray [JString ''ff00''])])"
  by (simp add: Marshal_SubmitParams_def Submit_params_def Marshal_BytesEnvelope_def
      Marshal_string_def MarshalJSON_def acceptRange_def RuneError_def)

subsection \<open>The response\<close>

lemma call_request_Unmarshal:
  "call_request (e\<lparr>Unmarshal_jsonRPCResponse := u\<rparr>) c method params = call_request e c method params"
  by (cases params)
     (simp_all add: call_request_def Marshal_jsonRPCRequest_def http_NewRequest_def Let_def)

text \<open>
  Claim C3, as amended. \<^verbatim>\<open>call\<close> goes on to the JSON-RPC response exactly when the
  status of the HTTP response is 200: then what it returns is decided by the reading and
  the decoding of the body. For every other status, the other 2xx statuses among them,
  it fails with the transport error that carries the status code and the bytes of the
  body, whatever the decoder would make of the body.
\<close>

theorem call_status:
  assumes "call_request e c method params = Inr req"
    and "Do e (httpClient c) req = Inr resp"
  shows "(StatusCode resp = 200 \<longrightarrow>
            call e c method params =
              (case ReadErr resp of
                 Some err \<Rightarrow> Inl (Errorf ''failed to read response'' err)
               | None \<Rightarrow>
                   (case Unmarshal_jsonRPCResponse e (Response.Body resp) of
                      Inl err \<Rightarrow> Inl (Errorf ''failed to unmarshal response'' err)
                    | Inr rpcResponse \<Rightarrow>
                        (case Error rpcResponse of
                           Some rpcError \<Rightarrow>
                             Inl (TRPError \<lparr>Error.Message = jsonRPCError.Message rpcError,
                                            Error.Data = jsonRPCError.Data rpcError\<rparr>)
                         | None \<Rightarrow> Inr (Result rpcResponse))))) \<and>
         (StatusCode resp \<noteq> 200 \<longrightarrow>
            (\<forall>u. call (e\<lparr>Unmarshal_jsonRPCResponse := u\<rparr>) c method params =
                   Inl (HTTPError (StatusCode resp) (Response.Body resp))))"
  using assms
  by (simp add: call_def call_response_def StatusOK_def call_request_Unmarshal)

theorem call_status_witness:
  "call (sample_env (sample_response 200 ''{}'') (Inr sample_success)) (NewClient sample_options)
     ''trp.resolve'' (Inr JNull) = Inr (Result sample_success) \<and>
   (\<forall>u. call ((sample_env (sample_response 500 ''internal error'') (Inr sample_success))
                \<lparr>Unmarshal_jsonRPCResponse := u\<rparr>)
           (NewClient sample_options) ''trp.resolve'' (Inr JNull) =
         Inl (HTTPError 500 ''internal error''))"
proof -
  have ok: "StatusCode (sample_response 200 ''{}'') = 200" "ReadErr (sample_response 200 ''{}'') = None"
    and ko: "StatusCode (sample_response 500 ''internal error'') \<noteq> 200"
      "StatusCode (sample_response 500 ''internal error'') = 500"
      "Response.Body (sample_response 500 ''internal error'') = ''internal error''"
    and success: "Error sample_success = None"
    by (simp_all add: sample_response_def sample_success_def)
  show ?thesis
    using ok ko success
      call_status [OF sample_call_request [of "sample_response 200 ''{}''" "Inr sample_success"
            "''trp.resolve''" JNull] sample_Do]
      call_status [OF sample_call_request [of "sample_response 500 ''internal error''"
            "Inr sample_success" "''trp.resolve''" JNull] sample_Do]
    by (simp add: sample_Unmarshal)
qed

text \<open>
  The claim as stated, for every 2xx status, fails on status 201: the body would decode
  to a response with a result, and \<^verbatim>\<open>call\<close> returns the transport error.
\<close>

theorem call_status_counterexample:
  "Unmarshal_jsonRPCResponse (sample_env (sample_response 201 ''{}'') (Inr sample_success)) ''{}'' =
     Inr sample_success \<and>
   call (sample_env (sample_response 201 ''{}'') (Inr sample_success)) (NewClient sample_options)
     ''trp.resolve'' (Inr JNull) = Inl (HTTPError 201 ''{}'')"
  by (simp add: call_def sample_call_request sample_Do sample_Unmarshal call_response_def
      StatusOK_def sample_response_def)

text \<open>
  Claim C1, as amended. When the decoded JSON-RPC response carries an error object,
  \<^verbatim>\<open>call\<close> fails with an error value that carries the message and the optional data
  of the server's error. (The integer code is not part of that value: see the
  counterexample.)
\<close>

theorem call_error_message_data:
  assumes "call_request e c method params = Inr req"
    and "Do e (httpClient c) req = Inr resp"
    and "StatusCode resp = 200"
    and "ReadErr resp = None"
    and "Unmarshal_jsonRPCResponse e (Response.Body resp) = Inr rpcResponse"
    and "Error rpcResponse = Some rpcError"
  shows "\<exists>err. call e c method params = Inl (TRPError err) \<and>
               Error.Message err = jsonRPCError.Message rpcError \<and>
               Error.Data err = jsonRPCError.Data rpcError"
  using assms by (simp add: call_def call_response_def StatusOK_def)

theorem call_error_message_data_witness:
  "\<exists>err. call (sample_env (sample_response 200 ''{}'') (Inr (sample_failure (- 32000))))
            (NewClient sample_options) ''trp.resolve'' (Inr JNull) = Inl (TRPError err) \<and>
         Error.Message err = ''unresolvable template'' \<and>
         Error.Data err = Some (JString ''input 0'')"
proof -
  have "StatusCode (sample_response 200 ''{}'') = 200" "ReadErr (sample_response 200 ''{}'') = None"
    by (simp_all add: sample_response_def)
  moreover have "Error (sample_failure (- 32000)) =
      Some \<lparr>Code = - 32000, jsonRPCError.Message = ''unresolvable template'',
            jsonRPCError.Data = Some (JString ''input 0'')\<rparr>"
    by (simp add: sample_failure_def)
  ultimately show ?thesis
    using call_error_message_data [OF sample_call_request [of "sample_response 200 ''{}''"
            "Inr (sample_failure (- 32000))" "''trp.resolve''" JNull] sample_Do _ _ sample_Unmarshal]
    by simp
qed

text \<open>
  The claim as stated, with the code among what the error value preserves, fails: two
  responses whose errors differ in the code only, -32000 and -32601, make \<^verbatim>\<open>call\<close>
  fail with one and the same error value.
\<close>

theorem call_error_code_counterexample:
  "call (sample_env (sample_response 200 ''{}'') (Inr (sample_failure (- 32000))))
     (NewClient sample_options) ''trp.resolve'' (Inr JNull) =
     Inl (TRPError \<lparr>Error.Message = ''unresolvable template'',
                    Error.Data = Some (JString ''input 0'')\<rparr>) \<and>
   call (sample_env (sample_response 200 ''{}'') (Inr (sample_failure (- 32601))))
     (NewClient sample_options) ''trp.resolve'' (Inr JNull) =
     Inl (TRPError \<lparr>Error.Message = ''unresolvable template'',
                    Error.Data = Some (JString ''input 0'')\<rparr>)"
  by (simp add: call_def sample_call_request sample_Do sample_Unmarshal call_response_def
      StatusOK_def sample_response_def sample_failure_def)

text \<open>
  Claim C8. For every decoded JSON-RPC response in which the error is present,
  \<^verbatim>\<open>call\<close> fails with the protocol error made of its message and data, and returns no
  result, whatever the result field of the response holds.
\<close>

theorem call_error_precedence:
  assumes "call_request e c method params = Inr req"
    and "Do e (httpClient c) req = Inr resp"
    and "StatusCode resp = 200"
    and "ReadErr resp = None"
    and "Unmarshal_jsonRPCResponse e (Response.Body resp) = Inr rpcResponse"
    and "Error rpcResponse = Some rpcError"
  shows "call e c method params =
           Inl (TRPError \<lparr>Error.Message = jsonRPCError.Message rpcError,
                          Error.Data = jsonRPCError.Data rpcError\<rparr>) \<and>
         (\<forall>raw. call e c method params \<noteq> Inr raw)"
  using assms by (simp add: call_def call_response_def StatusOK_def)

theorem call_error_precedence_witness:
  "Result (sample_failure (- 32000)) = Some (JObject [(''hash'', JString ''1234'')]) \<and>
   call (sample_env (sample_response 200 ''{}'') (Inr (sample_failure (- 32000))))
     (NewClient sample_options) ''trp.submit'' (Inr JNull) =
     Inl (TRPError \<lparr>Error.Message = ''unresolvable template'',
                    Error.Data = Some (JString ''input 0'')\<rparr>) \<and>
   call (sample_env (sample_response 200 ''{}'') (Inr (sample_failure (- 32000))))
     (NewClient sample_options) ''trp.submit'' (Inr JNull) \<noteq>
     Inr (Some (JObject [(''hash'', JString ''1234'')]))"
proof -
  have "StatusCode (sample_response 200 ''{}'') = 200" "ReadErr (sample_response 200 ''{}'') = None"
    by (simp_all add: sample_response_def)
  moreover have "Error (sample_failure (- 32000)) =
      Some \<lparr>Code = - 32000, jsonRPCError.Message = ''unresolvable template'',
            jsonRPCError.Data = Some (JString ''input 0'')\<rparr>"
    and "Result (sample_failure (- 32000)) = Some (JObject [(''hash'', JString ''1234'')])"
    by (simp_all add: sample_failure_def)
  ultimately show ?thesis
    using call_error_precedence [OF sample_call_request [of "sample_response 200 ''{}''"
            "Inr (sample_failure (- 32000))" "''trp.submit''" JNull] sample_Do _ _ sample_Unmarshal]
    by simp
qed

end
